theory Spec2Isabelle
  imports Main "HOL-Library.Sublist"
begin

section \<open>Output items\<close>

text \<open>
  \<^verbatim>\<open>OutputItem\<close> of \<^verbatim>\<open>executor.ts\<close>. The \<^verbatim>\<open>type\<close> field holds whatever string
  reaches \<^verbatim>\<open>createOutput\<close> at run time (\<^verbatim>\<open>data.method\<close> of a console message is passed
  through unchecked), so it is a string here. The fields \<^verbatim>\<open>id\<close> (a random UUID) and
  \<^verbatim>\<open>timestamp\<close> (the wall clock) are drawn from the environment, never read again by the
  executor, and are left out.
\<close>

record OutputItem =
  otype :: string
  content :: string

definition createOutput :: "string \<Rightarrow> string \<Rightarrow> OutputItem" where
  "createOutput ty c = \<lparr>otype = ty, content = c\<rparr>"

section \<open>Values carried by protocol messages\<close>

text \<open>
  \<^verbatim>\<open>formatValue\<close> looks at a value only through \<^verbatim>\<open>=== null\<close>, \<^verbatim>\<open>=== undefined\<close>,
  \<^verbatim>\<open>typeof\<close>, \<^verbatim>\<open>JSON.stringify(arg, null, 2)\<close> and \<^verbatim>\<open>String(arg)\<close>. A value is
  therefore modelled by what these observations return: an object carries the outcome of
  its structural stringification (which may throw, or yield \<^verbatim>\<open>undefined\<close>) and its
  generic string conversion; any other non-string value carries its string conversion.
\<close>

datatype stringified = Throws | NoValue | Text string

datatype jsval =
    JNull
  | JUndefined
  | JString string
  | JObject stringified string
  | JOther string

fun formatArg :: "jsval \<Rightarrow> string option" where
  "formatArg JNull = Some ''null''"
| "formatArg JUndefined = Some ''undefined''"
| "formatArg (JString s) = Some s"
| "formatArg (JObject (Text j) s) = Some j"
| "formatArg (JObject NoValue s) = None"
| "formatArg (JObject Throws s) = Some s"
| "formatArg (JOther s) = Some s"

text \<open>\<^verbatim>\<open>Array.prototype.join\<close>: an \<^verbatim>\<open>undefined\<close> element contributes the empty string.\<close>

fun join :: "string \<Rightarrow> string option list \<Rightarrow> string" where
  "join sep [] = []"
| "join sep [x] = (case x of None \<Rightarrow> [] | Some s \<Rightarrow> s)"
| "join sep (x # y # ys) = (case x of None \<Rightarrow> [] | Some s \<Rightarrow> s) @ sep @ join sep (y # ys)"

definition formatValue :: "jsval list \<Rightarrow> string" where
  "formatValue args = join '' '' (map formatArg args)"

section \<open>The plain-value invocation\<close>

text \<open>
  A message event as \<^verbatim>\<open>handleMessage\<close> reads it: \<^verbatim>\<open>event.data\<close> may be absent (falsy);
  otherwise it carries \<^verbatim>\<open>execId\<close>, and \<^verbatim>\<open>type\<close> with the payload \<^verbatim>\<open>data\<close> that the
  branch of that type reads. A type other than the four of the protocol falls through
  every branch.
\<close>

datatype payload =
    Console string "jsval list"
  | ErrorMsg string
  | Result jsval
  | Done
  | Unknown string

record message =
  execId :: string
  body :: payload

datatype event = Message "message option" | TimerFired

text \<open>
  The closure state of one \<^verbatim>\<open>executePlainCode\<close> call: the variables \<^verbatim>\<open>resolved\<close> and
  \<^verbatim>\<open>blobUrl\<close>, the document behind the blob URL, whether \<^verbatim>\<open>handleMessage\<close> is registered
  on the window, whether the iframe has a parent node, whether the 10 s timer is still
  pending, the items handed to \<^verbatim>\<open>onOutput\<close> in order, and a log of the cleanup effects
  performed. \<^verbatim>\<open>onOutput\<close> is the caller's callback; it records the item and returns.
\<close>

record invocation =
  inv_execId :: string
  resolved :: bool
  blobUrl :: "string option"
  iframe_document :: string
  listening :: bool
  iframe_attached :: bool
  timer_pending :: bool
  emitted :: "OutputItem list"
  listener_removals :: nat
  iframe_removals :: nat
  revoked :: "string list"
  resolve_calls :: nat

definition onOutput :: "OutputItem \<Rightarrow> invocation \<Rightarrow> invocation" where
  "onOutput item iv = iv\<lparr>emitted := emitted iv @ [item]\<rparr>"

definition cleanup :: "invocation \<Rightarrow> invocation" where
  "cleanup iv =
     (if resolved iv then iv
      else
        let inv1 = iv\<lparr>resolved := True\<rparr>;
            inv2 = inv1\<lparr>listening := False, listener_removals := Suc (listener_removals inv1)\<rparr>;
            inv3 = (if iframe_attached inv2
                    then inv2\<lparr>iframe_attached := False, iframe_removals := Suc (iframe_removals inv2)\<rparr>
                    else inv2);
            inv4 = (case blobUrl inv3 of
                      None \<Rightarrow> inv3
                    | Some u \<Rightarrow> if u = [] then inv3 else inv3\<lparr>revoked := revoked inv3 @ [u]\<rparr>)
        in inv4\<lparr>resolve_calls := Suc (resolve_calls inv4)\<rparr>)"

definition timeout_message :: string where
  "timeout_message = ''Execution timed out (10s)''"

definition onTimeout :: "invocation \<Rightarrow> invocation" where
  "onTimeout iv = cleanup (onOutput (createOutput ''error'' timeout_message) iv)"

definition clearTimeout :: "invocation \<Rightarrow> invocation" where
  "clearTimeout iv = iv\<lparr>timer_pending := False\<rparr>"

definition handleMessage :: "message option \<Rightarrow> invocation \<Rightarrow> invocation" where
  "handleMessage ev iv =
     (case ev of
        None \<Rightarrow> iv
      | Some m \<Rightarrow>
          if execId m \<noteq> inv_execId iv then iv
          else (case body m of
                  Console method args \<Rightarrow> onOutput (createOutput method (formatValue args)) iv
                | ErrorMsg msg \<Rightarrow> onOutput (createOutput ''error'' msg) iv
                | Result v \<Rightarrow>
                    if v \<noteq> JUndefined
                    then onOutput (createOutput ''result'' (formatValue [v])) iv
                    else iv
                | Done \<Rightarrow> cleanup (clearTimeout iv)
                | Unknown t \<Rightarrow> iv))"

text \<open>
  One turn of the event loop: a message reaches \<^verbatim>\<open>handleMessage\<close> only while the
  listener is registered; the timer callback runs only while the timer is pending, and a
  timer fires once.
\<close>

definition deliver :: "event \<Rightarrow> invocation \<Rightarrow> invocation" where
  "deliver ev iv =
     (case ev of
        Message m \<Rightarrow> if listening iv then handleMessage m iv else iv
      | TimerFired \<Rightarrow>
          if timer_pending iv then onTimeout (iv\<lparr>timer_pending := False\<rparr>) else iv)"

fun run_events :: "event list \<Rightarrow> invocation \<Rightarrow> invocation" where
  "run_events [] iv = iv"
| "run_events (e # es) iv = run_events es (deliver e iv)"

text \<open>
  The state the promise executor leaves behind before any event can be delivered: timer
  armed, listener registered, blob URL created (\<^verbatim>\<open>URL.createObjectURL\<close> returns a
  \<^verbatim>\<open>blob:\<close> URL), iframe appended to the document body.
\<close>

definition createObjectURL :: "string \<Rightarrow> string" where
  "createObjectURL blob_id = ''blob:'' @ blob_id"

definition start_invocation :: "string \<Rightarrow> string \<Rightarrow> string \<Rightarrow> invocation" where
  "start_invocation eid blob_id html =
     \<lparr>inv_execId = eid, resolved = False, blobUrl = Some (createObjectURL blob_id),
      iframe_document = html, listening = True, iframe_attached = True, timer_pending = True, emitted = [],
      listener_removals = 0, iframe_removals = 0, revoked = [], resolve_calls = 0\<rparr>"

definition is_done_for :: "string \<Rightarrow> event \<Rightarrow> bool" where
  "is_done_for eid ev =
     (case ev of
        Message (Some m) \<Rightarrow> execId m = eid \<and> body m = Done
      | _ \<Rightarrow> False)"

text \<open>
  The invariant of the event loop: listener, iframe and timer are live exactly while the
  invocation is unresolved, and every cleanup effect has happened once if the invocation
  is resolved and not at all otherwise.
\<close>

definition inv_ok :: "invocation \<Rightarrow> bool" where
  "inv_ok iv =
     ((listening iv = (\<not> resolved iv)) \<and>
      (iframe_attached iv = (\<not> resolved iv)) \<and>
      (timer_pending iv = (\<not> resolved iv)) \<and>
      (\<exists>u. blobUrl iv = Some u \<and> u \<noteq> [] \<and> revoked iv = (if resolved iv then [u] else [])) \<and>
      listener_removals iv = (if resolved iv then 1 else 0) \<and>
      iframe_removals iv = (if resolved iv then 1 else 0) \<and>
      resolve_calls iv = (if resolved iv then 1 else 0))"

text \<open>
  The specification's wording of how one argument is rendered, written down without
  reference to \<^verbatim>\<open>formatValue\<close>: a string stands for itself; \<^verbatim>\<open>null\<close> and \<^verbatim>\<open>undefined\<close>
  appear under their names; an object appears as its structural text, and as its generic
  string conversion if the structural stringification fails; every other primitive appears
  in its natural text form. An object whose structural stringification yields no text at
  all contributes nothing.
\<close>

fun representation :: "jsval \<Rightarrow> string" where
  "representation (JString s) = s"
| "representation JNull = ''null''"
| "representation JUndefined = ''undefined''"
| "representation (JObject structural generic) =
     (case structural of Text j \<Rightarrow> j | Throws \<Rightarrow> generic | NoValue \<Rightarrow> [])"
| "representation (JOther natural) = natural"

text \<open>The specification's wording of the content: the representations, single spaces between.\<close>

fun joined_by_spaces :: "string list \<Rightarrow> string" where
  "joined_by_spaces [] = []"
| "joined_by_spaces [r] = r"
| "joined_by_spaces (r # r' # rs) = r @ '' '' @ joined_by_spaces (r' # rs)"

section \<open>Strings and regular expressions\<close>

text \<open>
  Strings are lists of 8-bit characters (the Latin-1 range of JavaScript's code units).
  In that range \<^verbatim>\<open>\s\<close> (and \<^verbatim>\<open>String.prototype.trim\<close>) cover tab, line feed, vertical
  tab, form feed, carriage return, space and no-break space; the line terminators, which
  \<^verbatim>\<open>.\<close> refuses and next to which \<^verbatim>\<open>^\<close> and \<^verbatim>\<open>$\<close> match under the \<^verbatim>\<open>m\<close> flag, are
  line feed and carriage return.
\<close>

definition nl :: string where "nl = [CHR 0x0A]"
definition sq :: string where "sq = [CHR 0x27]"
definition dq :: string where "dq = [CHR 0x22]"

definition is_line_terminator :: "char \<Rightarrow> bool" where
  "is_line_terminator c = (c = CHR 0x0A \<or> c = CHR 0x0D)"

definition is_space :: "char \<Rightarrow> bool" where
  "is_space c =
     (c = CHR 0x09 \<or> c = CHR 0x0A \<or> c = CHR 0x0B \<or> c = CHR 0x0C \<or> c = CHR 0x0D \<or>
      c = CHR 0x20 \<or> c = CHR 0xA0)"

definition is_word :: "char \<Rightarrow> bool" where
  "is_word c =
     (let n = (of_char c :: nat)
      in (48 \<le> n \<and> n \<le> 57) \<or> (65 \<le> n \<and> n \<le> 90) \<or> (97 \<le> n \<and> n \<le> 122) \<or> n = 95)"

definition trim :: "string \<Rightarrow> string" where
  "trim s = rev (dropWhile is_space (rev (dropWhile is_space s)))"

definition startsWith :: "string \<Rightarrow> string \<Rightarrow> bool" where
  "startsWith s p = (take (length p) s = p)"

fun includes_str :: "string \<Rightarrow> string \<Rightarrow> bool" where
  "includes_str [] p = (p = [])"
| "includes_str (x # xs) p = (startsWith (x # xs) p \<or> includes_str xs p)"

text \<open>
  The regular expressions of the executor use character classes, greedy and lazy
  repetition of a class, the anchors \<^verbatim>\<open>^\<close> and \<^verbatim>\<open>$\<close> (always under the \<^verbatim>\<open>m\<close> flag),
  capture groups, and one optional group. \<open>rmatch\<close> is the backtracking matcher: it tries
  the alternatives of each repetition in the order of the JavaScript semantics (longest
  first when greedy, shortest first when lazy) and returns the first complete match: the
  unconsumed rest of the input and the text of the capture groups. The \<^verbatim>\<open>i\<close> flag of the
  heading expressions is without effect, as they name no letter.
\<close>

datatype cls = Is char | Dot | Space | Word | OneOf string | NoneOf string | AnyChar

fun in_cls :: "cls \<Rightarrow> char \<Rightarrow> bool" where
  "in_cls (Is c) x = (x = c)"
| "in_cls Dot x = (\<not> is_line_terminator x)"
| "in_cls Space x = is_space x"
| "in_cls Word x = is_word x"
| "in_cls (OneOf cs) x = (x \<in> set cs)"
| "in_cls (NoneOf cs) x = (x \<notin> set cs)"
| "in_cls AnyChar x = True"

datatype quant = Greedy | Lazy

datatype atom =
    Cls cls
  | Star quant cls
  | Bol
  | Eol
  | Open nat
  | Close nat
  | Opt "atom list"

type_synonym groups = "(nat \<times> string) list"

fun atoms_size :: "atom list \<Rightarrow> nat" and atom_size :: "atom \<Rightarrow> nat" where
  "atoms_size [] = 0"
| "atoms_size (a # as) = Suc (atom_size a + atoms_size as)"
| "atom_size (Opt b) = Suc (atoms_size b)"
| "atom_size a = 0"

lemma atoms_size_append [simp]: "atoms_size (xs @ ys) = atoms_size xs + atoms_size ys"
  by (induction xs) simp_all

function rmatch ::
  "atom list \<Rightarrow> char option \<Rightarrow> string \<Rightarrow> groups \<Rightarrow> groups \<Rightarrow> (string \<times> groups) option"
where
  "rmatch [] prev s opens caps = Some (s, caps)"
| "rmatch (Cls c # as) prev s opens caps =
     (case s of
        [] \<Rightarrow> None
      | x # xs \<Rightarrow> if in_cls c x then rmatch as (Some x) xs opens caps else None)"
| "rmatch (Star Greedy c # as) prev s opens caps =
     (case s of
        [] \<Rightarrow> rmatch as prev s opens caps
      | x # xs \<Rightarrow>
          if in_cls c x
          then (case rmatch (Star Greedy c # as) (Some x) xs opens caps of
                  Some r \<Rightarrow> Some r
                | None \<Rightarrow> rmatch as prev s opens caps)
          else rmatch as prev s opens caps)"
| "rmatch (Star Lazy c # as) prev s opens caps =
     (case rmatch as prev s opens caps of
        Some r \<Rightarrow> Some r
      | None \<Rightarrow>
          (case s of
             [] \<Rightarrow> None
           | x # xs \<Rightarrow>
               if in_cls c x then rmatch (Star Lazy c # as) (Some x) xs opens caps else None))"
| "rmatch (Bol # as) prev s opens caps =
     (if (case prev of None \<Rightarrow> True | Some p \<Rightarrow> is_line_terminator p)
      then rmatch as prev s opens caps else None)"
| "rmatch (Eol # as) prev s opens caps =
     (if (case s of [] \<Rightarrow> True | x # xs \<Rightarrow> is_line_terminator x)
      then rmatch as prev s opens caps else None)"
| "rmatch (Open n # as) prev s opens caps = rmatch as prev s ((n, s) # opens) caps"
| "rmatch (Close n # as) prev s opens caps =
     (case map_of opens n of
        None \<Rightarrow> rmatch as prev s opens caps
      | Some start \<Rightarrow> rmatch as prev s opens ((n, take (length start - length s) start) # caps))"
| "rmatch (Opt b # as) prev s opens caps =
     (case rmatch (b @ as) prev s opens caps of
        Some r \<Rightarrow> Some r
      | None \<Rightarrow> rmatch as prev s opens caps)"
  by pat_completeness auto
termination
  by (relation "measure (\<lambda>(as, prev, s, opens, caps). atoms_size as + length s)") auto

definition lit :: "string \<Rightarrow> atom list" where
  "lit s = map (\<lambda>c. Cls (Is c)) s"

definition plus :: "quant \<Rightarrow> cls \<Rightarrow> atom list" where
  "plus q c = [Cls c, Star q c]"

text \<open>The text of capture group \<open>n\<close>; a group that did not take part reads as empty.\<close>

definition group :: "groups \<Rightarrow> nat \<Rightarrow> string" where
  "group caps n = (case map_of caps n of None \<Rightarrow> [] | Some t \<Rightarrow> t)"

text \<open>
  \<^verbatim>\<open>String.prototype.replace\<close> with a global expression: the leftmost match from the
  current position on is replaced by what \<open>f\<close> makes of the matched text and the groups,
  and the scan resumes after the match (one character further after an empty match).
  \<open>prev\<close> is the character before the current position.
\<close>

function replace_all ::
  "atom list \<Rightarrow> (string \<Rightarrow> groups \<Rightarrow> string) \<Rightarrow> char option \<Rightarrow> string \<Rightarrow> string"
where
  "replace_all re f prev s =
     (case rmatch re prev s [] [] of
        None \<Rightarrow> (case s of [] \<Rightarrow> [] | x # xs \<Rightarrow> x # replace_all re f (Some x) xs)
      | Some (rest, caps) \<Rightarrow>
          let matched = take (length s - length rest) s; out = f matched caps
          in if length rest < length s
             then out @ replace_all re f (Some (last matched)) rest
             else (case s of [] \<Rightarrow> out | x # xs \<Rightarrow> out @ x # replace_all re f (Some x) xs))"
  by pat_completeness auto
termination
  by (relation "measure (\<lambda>(re, f, prev, s). length s)") auto

declare replace_all.simps [simp del]

definition replace :: "atom list \<Rightarrow> (string \<Rightarrow> groups \<Rightarrow> string) \<Rightarrow> string \<Rightarrow> string" where
  "replace re f s = replace_all re f None s"

section \<open>The import rewriter\<close>

text \<open>\<^verbatim>\<open>/import\s+(.+?)\s+from\s+['"]([^'"./][^'"]*)['"]/g\<close>\<close>

definition re_import :: "atom list" where
  "re_import =
     lit ''import'' @ plus Greedy Space @
     [Open 1] @ plus Lazy Dot @ [Close 1] @
     plus Greedy Space @ lit ''from'' @ plus Greedy Space @
     [Cls (OneOf [CHR 0x27, CHR 0x22]),
      Open 2, Cls (NoneOf [CHR 0x27, CHR 0x22, CHR ''.'', CHR ''/'']),
      Star Greedy (NoneOf [CHR 0x27, CHR 0x22]), Close 2,
      Cls (OneOf [CHR 0x27, CHR 0x22])]"

definition import_callback :: "string \<Rightarrow> groups \<Rightarrow> string" where
  "import_callback match caps =
     (let imports = group caps 1; pkg = group caps 2
      in if startsWith pkg ''http'' then match
         else ''import '' @ imports @ '' from '' @ sq @ ''https://esm.sh/'' @ pkg @ sq)"

definition transformImports :: "string \<Rightarrow> string" where
  "transformImports code = replace re_import import_callback code"

section \<open>The markup renderer\<close>

definition template1 :: "string \<Rightarrow> string \<Rightarrow> string \<Rightarrow> groups \<Rightarrow> string" where
  "template1 opening closing match caps = opening @ group caps 1 @ closing"

definition fixed_text :: "string \<Rightarrow> string \<Rightarrow> groups \<Rightarrow> string" where
  "fixed_text r match caps = r"

definition escape_html :: "string \<Rightarrow> string" where
  "escape_html markdown =
     replace (lit ''>'') (fixed_text ''&gt;'')
       (replace (lit ''<'') (fixed_text ''&lt;'')
         (replace (lit ''&'') (fixed_text ''&amp;'') markdown))"

definition re_heading :: "nat \<Rightarrow> atom list" where
  "re_heading n = [Bol] @ lit (replicate n (CHR ''#'') @ '' '') @ [Open 1, Star Greedy Dot, Eol, Close 1]"

definition re_emphasis :: "nat \<Rightarrow> atom list" where
  "re_emphasis n =
     lit (replicate n (CHR ''*'')) @ [Open 1, Star Lazy Dot, Close 1] @ lit (replicate n (CHR ''*''))"

definition re_fence :: "atom list" where
  "re_fence =
     lit [CHR 0x60, CHR 0x60, CHR 0x60] @ [Opt ([Open 1] @ plus Greedy Word @ [Close 1])] @ lit nl @
     [Open 2, Star Lazy AnyChar, Close 2] @ lit [CHR 0x60, CHR 0x60, CHR 0x60]"

definition re_code :: "atom list" where
  "re_code = lit [CHR 0x60] @ [Open 1] @ plus Greedy (NoneOf [CHR 0x60]) @ [Close 1] @ lit [CHR 0x60]"

definition re_link :: "atom list" where
  "re_link =
     lit ''['' @ [Open 1] @ plus Greedy (NoneOf '']'') @ [Close 1] @ lit '']('' @
     [Open 2] @ plus Greedy (NoneOf '')'') @ [Close 2] @ lit '')''"

definition link_template :: "string \<Rightarrow> groups \<Rightarrow> string" where
  "link_template match caps = ''<a href='' @ dq @ group caps 2 @ dq @ ''>'' @ group caps 1 @ ''</a>''"

text \<open>The substitutions of \<^verbatim>\<open>markdownToHtml\<close> after the three escapes, in source order.\<close>

definition structural :: "string \<Rightarrow> string" where
  "structural escaped =
     replace (lit nl) (fixed_text ''<br>'')
       (replace (lit (nl @ nl)) (fixed_text ''</p><p>'')
         (replace re_link link_template
           (replace re_code (template1 ''<code>'' ''</code>'')
             (replace re_fence (\<lambda>match caps. ''<pre><code>'' @ group caps 2 @ ''</code></pre>'')
               (replace (re_emphasis 1) (template1 ''<em>'' ''</em>'')
                 (replace (re_emphasis 2) (template1 ''<strong>'' ''</strong>'')
                   (replace (re_emphasis 3) (template1 ''<strong><em>'' ''</em></strong>'')
                     (replace (re_heading 1) (template1 ''<h1>'' ''</h1>'')
                       (replace (re_heading 2) (template1 ''<h2>'' ''</h2>'')
                         (replace (re_heading 3) (template1 ''<h3>'' ''</h3>'')
                           escaped))))))))))"

definition markdownToHtml :: "string \<Rightarrow> string" where
  "markdownToHtml markdown = ''<p>'' @ structural (escape_html markdown) @ ''</p>''"

definition preview_head :: string where
  "preview_head =
     nl @
     ''    <!DOCTYPE html>'' @ nl @
     ''    <html>'' @ nl @
     ''    <head>'' @ nl @
     ''      <style>'' @ nl @
     ''        * { margin: 0; padding: 0; box-sizing: border-box; }'' @ nl @
     ''        body {'' @ nl @
     ''          font-family: -apple-system, BlinkMacSystemFont, '' @ sq @ ''Segoe UI'' @ sq @ '', Roboto, sans-serif;'' @ nl @
     ''          padding: 16px;'' @ nl @
     ''          line-height: 1.6;'' @ nl @
     ''          color: #1a1a1a;'' @ nl @
     ''        }'' @ nl @
     ''        h1, h2, h3 { margin: 1em 0 0.5em; }'' @ nl @
     ''        h1 { font-size: 1.5em; }'' @ nl @
     ''        h2 { font-size: 1.25em; }'' @ nl @
     ''        h3 { font-size: 1.1em; }'' @ nl @
     ''        p { margin: 0.5em 0; }'' @ nl @
     ''        code { background: #f0f0f0; padding: 0.2em 0.4em; border-radius: 3px; font-size: 0.9em; }'' @ nl @
     ''        pre { background: #f0f0f0; padding: 1em; border-radius: 4px; overflow-x: auto; margin: 1em 0; }'' @ nl @
     ''        pre code { background: none; padding: 0; }'' @ nl @
     ''        a { color: #0066cc; }'' @ nl @
     ''      </style>'' @ nl @
     ''    </head>'' @ nl @
     ''    <body>''"

definition preview_tail :: string where
  "preview_tail =
     ''</body>'' @ nl @
     ''    </html>'' @ nl @
     ''  ''"

definition createHtmlPreview :: "string \<Rightarrow> string" where
  "createHtmlPreview html = preview_head @ html @ preview_tail"

section \<open>The rendering mode\<close>

text \<open>
  \<^verbatim>\<open>executeReactCode\<close> emits one item holding a self-contained document. \<open>stringify\<close>
  stands for \<^verbatim>\<open>JSON.stringify\<close> on the transpiled code, a string.
\<close>

definition react_head :: string where
  "react_head =
     nl @
     ''    <!DOCTYPE html>'' @ nl @
     ''    <html>'' @ nl @
     ''    <head>'' @ nl @
     ''      <style>'' @ nl @
     ''        * { margin: 0; padding: 0; box-sizing: border-box; }'' @ nl @
     ''        body { font-family: -apple-system, BlinkMacSystemFont, '' @ sq @ ''Segoe UI'' @ sq @ '', Roboto, sans-serif; }'' @ nl @
     ''        #root { padding: 16px; }'' @ nl @
     ''        .error { color: red; padding: 16px; font-family: monospace; white-space: pre-wrap; }'' @ nl @
     ''        .loading { color: #666; padding: 16px; }'' @ nl @
     ''      </style>'' @ nl @
     ''    </head>'' @ nl @
     ''    <body>'' @ nl @
     ''      <div id='' @ dq @ ''root'' @ dq @ ''><div class='' @ dq @ ''loading'' @ dq @ ''>Loading React...</div></div>'' @ nl @
     ''      <script type='' @ dq @ ''module'' @ dq @ ''>'' @ nl @
     ''        try {'' @ nl @
     ''          // Import React FIRST so it'' @ sq @ ''s available for the user'' @ sq @ ''s transpiled JSX'' @ nl @
     ''          const React = await import('' @ sq @ ''https://esm.sh/react@18'' @ sq @ '');'' @ nl @
     ''          const ReactDOM = await import('' @ sq @ ''https://esm.sh/react-dom@18/client'' @ sq @ '');'' @ nl @
     nl @
     ''          // Make React globally available for createElement calls'' @ nl @
     ''          window.React = React;'' @ nl @
     nl @
     ''          // Execute user code - eval returns the last expression value'' @ nl @
     ''          const userCode = ''"

definition react_tail :: string where
  "react_tail =
     '';'' @ nl @
     nl @
     ''          // eval() returns the value of the last expression'' @ nl @
     ''          const result = eval(userCode);'' @ nl @
     nl @
     ''          // Try to render the result if it'' @ sq @ ''s a React element or component'' @ nl @
     ''          const root = ReactDOM.createRoot(document.getElementById('' @ sq @ ''root'' @ sq @ ''));'' @ nl @
     nl @
     ''          if (result && (result.$$typeof || typeof result === '' @ sq @ ''function'' @ sq @ '')) {'' @ nl @
     ''            // It'' @ sq @ ''s a React element or component'' @ nl @
     ''            if (typeof result === '' @ sq @ ''function'' @ sq @ '') {'' @ nl @
     ''              root.render(React.createElement(result));'' @ nl @
     ''            } else {'' @ nl @
     ''              root.render(result);'' @ nl @
     ''            }'' @ nl @
     ''          } else if (result !== undefined) {'' @ nl @
     ''            // Just display the result as text'' @ nl @
     ''            root.render(React.createElement('' @ sq @ ''pre'' @ sq @ '', null, JSON.stringify(result, null, 2)));'' @ nl @
     ''          } else {'' @ nl @
     ''            root.render(React.createElement('' @ sq @ ''div'' @ sq @ '', { className: '' @ sq @ ''error'' @ sq @ '' }, '' @ sq @ ''No component to render. Make sure your code returns a React element or component.'' @ sq @ ''));'' @ nl @
     ''          }'' @ nl @
     ''        } catch (error) {'' @ nl @
     ''          console.error('' @ sq @ ''Execution error:'' @ sq @ '', error);'' @ nl @
     ''          document.getElementById('' @ sq @ ''root'' @ sq @ '').innerHTML = '' @ sq @ ''<div class='' @ dq @ ''error'' @ dq @ ''>Error: '' @ sq @ '' + error.message + '' @ sq @ ''</div>'' @ sq @ '';'' @ nl @
     ''        }'' @ nl @
     ''      </script>'' @ nl @
     ''    </body>'' @ nl @
     ''    </html>'' @ nl @
     ''  ''"

definition react_document :: "(string \<Rightarrow> string) \<Rightarrow> string \<Rightarrow> string" where
  "react_document stringify code = react_head @ stringify code @ react_tail"

definition executeReactCode :: "(string \<Rightarrow> string) \<Rightarrow> string \<Rightarrow> OutputItem" where
  "executeReactCode stringify code = createOutput ''react'' (react_document stringify code)"


section \<open>Process state and the orchestrator\<close>

text \<open>
  The module-level variables. \<^verbatim>\<open>esbuildInitError\<close> is \<^verbatim>\<open>null\<close> or an \<^verbatim>\<open>Error\<close>, kept
  here by its message. \<^verbatim>\<open>executionCounter\<close> is a count of calls, a natural number
  (JavaScript numbers hold every integer below \<open>2\<^sup>5\<^sup>3\<close> exactly).
\<close>

record proc =
  esbuildInitialized :: bool
  esbuildInitError :: "string option"
  executionCounter :: nat

text \<open>
  A thrown value as the \<^verbatim>\<open>catch\<close> clauses look at it: an instance of \<^verbatim>\<open>Error\<close> with
  its message, or any other value with its \<^verbatim>\<open>String(...)\<close> conversion.
\<close>

datatype thrown = JsError string | NonError string

text \<open>
  What the surroundings contribute to one call of \<^verbatim>\<open>executeCode\<close>: how
  \<^verbatim>\<open>esbuild.initialize\<close> settles if it is called (\<open>None\<close>: it resolves), what
  \<^verbatim>\<open>esbuild.transform\<close> does on a source text and loader, the clock reading, the
  identifier the browser puts into the blob URL, \<^verbatim>\<open>JSON.stringify\<close> on strings, and
  the events the window delivers while the plain-value promise is awaited (the messages
  posted by the iframe and by anyone else, and the firing of the timer).
\<close>

record env =
  initialize_outcome :: "thrown option"
  transform :: "string \<Rightarrow> string \<Rightarrow> thrown + string"
  date_now :: nat
  blob_id :: string
  stringify :: "string \<Rightarrow> string"
  events :: "event list"

datatype call = Initialize | Transform string string

definition initialize_twice :: string where
  "initialize_twice = ''Cannot call '' @ dq @ ''initialize'' @ dq @ '' more than once''"

text \<open>
  \<^verbatim>\<open>error instanceof Error ? error.message : String(error)\<close>, and the test for the
  error by which esbuild answers a second \<^verbatim>\<open>initialize\<close>.
\<close>

definition message_of :: "thrown \<Rightarrow> string" where
  "message_of error = (case error of JsError msg \<Rightarrow> msg | NonError v \<Rightarrow> v)"

definition already_initialized :: "thrown \<Rightarrow> bool" where
  "already_initialized error =
     (case error of JsError msg \<Rightarrow> includes_str msg initialize_twice | NonError v \<Rightarrow> False)"

text \<open>
  \<^verbatim>\<open>initEsbuild\<close> suspends once, at \<^verbatim>\<open>await esbuild.initialize\<close>. What it does before
  (the two tests of the module state, then the call) and what it does when the call has
  settled (set the flag, or cache the error and throw) are separate steps: between them
  other invocations may run, and the second step works on the state as it is by then.
\<close>

datatype init_entry = AlreadyInitialized | CachedError string | CallsInitialize

definition initEsbuild_enter :: "proc \<Rightarrow> init_entry" where
  "initEsbuild_enter p =
     (if esbuildInitialized p then AlreadyInitialized
      else case esbuildInitError p of
        Some msg \<Rightarrow> CachedError msg
      | None \<Rightarrow> CallsInitialize)"

definition initEsbuild_settle :: "thrown option \<Rightarrow> proc \<Rightarrow> (thrown + unit) \<times> proc" where
  "initEsbuild_settle outcome p =
     (case outcome of
        None \<Rightarrow> (Inr (), p\<lparr>esbuildInitialized := True\<rparr>)
      | Some error \<Rightarrow>
          if already_initialized error
          then (Inr (), p\<lparr>esbuildInitialized := True\<rparr>)
          else (Inl (JsError (message_of error)),
                p\<lparr>esbuildInitError := Some (message_of error)\<rparr>))"

text \<open>
  \<^verbatim>\<open>initEsbuild\<close> when nothing else runs in between: \<open>Inl\<close> is the value it throws; the
  calls made to esbuild are logged.
\<close>

definition initEsbuild :: "thrown option \<Rightarrow> proc \<Rightarrow> (thrown + unit) \<times> proc \<times> call list" where
  "initEsbuild outcome p =
     (case initEsbuild_enter p of
        AlreadyInitialized \<Rightarrow> (Inr (), p, [])
      | CachedError msg \<Rightarrow> (Inl (JsError msg), p, [])
      | CallsInitialize \<Rightarrow>
          (case initEsbuild_settle outcome p of (r, p') \<Rightarrow> (r, p', [Initialize])))"

text \<open>Decimal rendering of a count, as a template literal renders an integer.\<close>

definition digit :: "nat \<Rightarrow> char" where
  "digit d = char_of (48 + d)"

function show_nat :: "nat \<Rightarrow> string" where
  "show_nat n = (if n < 10 then [digit n] else show_nat (n div 10) @ [digit (n mod 10)])"
  by pat_completeness auto
termination
  by (relation "measure id") auto

declare show_nat.simps [simp del]

definition getExecutionId :: "nat \<Rightarrow> proc \<Rightarrow> string \<times> proc" where
  "getExecutionId now p =
     (let c = Suc (executionCounter p)
      in (''exec_'' @ show_nat now @ ''_'' @ show_nat c, p\<lparr>executionCounter := c\<rparr>))"

text \<open>
  The document that \<^verbatim>\<open>executePlainCode\<close> hands to the iframe through the blob URL: the
  identifier and the transpiled code are spliced into a fixed module script.
\<close>

definition plain_head :: string where
  "plain_head =
     nl @
     ''      <!DOCTYPE html>'' @ nl @
     ''      <html>'' @ nl @
     ''      <head>'' @ nl @
     ''        <script type='' @ dq @ ''module'' @ dq @ ''>'' @ nl @
     ''          const EXEC_ID = '' @ sq"

definition plain_middle :: string where
  "plain_middle =
     sq @ '';'' @ nl @
     nl @
     ''          // Override console methods'' @ nl @
     ''          const originalConsole = { ...console };'' @ nl @
     ''          ['' @ sq @ ''log'' @ sq @ '', '' @ sq @ ''error'' @ sq @ '', '' @ sq @ ''warn'' @ sq @ '', '' @ sq @ ''info'' @ sq @ ''].forEach(method => {'' @ nl @
     ''            console[method] = (...args) => {'' @ nl @
     ''              parent.postMessage({ execId: EXEC_ID, type: '' @ sq @ ''console'' @ sq @ '', data: { method, args: args.map(a => {'' @ nl @
     ''                try { return typeof a === '' @ sq @ ''object'' @ sq @ '' ? JSON.stringify(a) : String(a); }'' @ nl @
     ''                catch { return String(a); }'' @ nl @
     ''              }) } }, '' @ sq @ ''*'' @ sq @ '');'' @ nl @
     ''              originalConsole[method](...args);'' @ nl @
     ''            };'' @ nl @
     ''          });'' @ nl @
     nl @
     ''          // Global error handler'' @ nl @
     ''          window.onerror = (message, source, line, col, error) => {'' @ nl @
     ''            parent.postMessage({ execId: EXEC_ID, type: '' @ sq @ ''error'' @ sq @ '', data: { message: error?.message || String(message) } }, '' @ sq @ ''*'' @ sq @ '');'' @ nl @
     ''            return true;'' @ nl @
     ''          };'' @ nl @
     nl @
     ''          // Unhandled promise rejection'' @ nl @
     ''          window.onunhandledrejection = (event) => {'' @ nl @
     ''            parent.postMessage({ execId: EXEC_ID, type: '' @ sq @ ''error'' @ sq @ '', data: { message: event.reason?.message || String(event.reason) } }, '' @ sq @ ''*'' @ sq @ '');'' @ nl @
     ''          };'' @ nl @
     nl @
     ''          // Execute code'' @ nl @
     ''          (async () => {'' @ nl @
     ''            try {'' @ nl @
     ''              ''"

definition plain_tail :: string where
  "plain_tail =
     nl @
     ''              parent.postMessage({ execId: EXEC_ID, type: '' @ sq @ ''done'' @ sq @ '' }, '' @ sq @ ''*'' @ sq @ '');'' @ nl @
     ''            } catch (error) {'' @ nl @
     ''              parent.postMessage({ execId: EXEC_ID, type: '' @ sq @ ''error'' @ sq @ '', data: { message: error.message || String(error) } }, '' @ sq @ ''*'' @ sq @ '');'' @ nl @
     ''              parent.postMessage({ execId: EXEC_ID, type: '' @ sq @ ''done'' @ sq @ '' }, '' @ sq @ ''*'' @ sq @ '');'' @ nl @
     ''            }'' @ nl @
     ''          })();'' @ nl @
     ''        </script>'' @ nl @
     ''      </head>'' @ nl @
     ''      <body></body>'' @ nl @
     ''      </html>'' @ nl @
     ''    ''"

definition plain_document :: "string \<Rightarrow> string \<Rightarrow> string" where
  "plain_document eid code = plain_head @ eid @ plain_middle @ code @ plain_tail"

text \<open>
  \<^verbatim>\<open>executePlainCode\<close>: a fresh identifier, the executor's set-up, then the events. The
  document loaded into the iframe is the program of the execution context; what it does
  (the messages it posts) is in the events. The promise is resolved when \<^verbatim>\<open>cleanup\<close> has
  run.
\<close>

definition executePlainCode :: "env \<Rightarrow> proc \<Rightarrow> string \<Rightarrow> invocation \<times> proc" where
  "executePlainCode e p code =
     (let (eid, p') = getExecutionId (date_now e) p
      in (run_events (events e) (start_invocation eid (blob_id e) (plain_document eid code)), p'))"

text \<open>
  The result of \<^verbatim>\<open>executeCode\<close>: the items handed to \<^verbatim>\<open>onOutput\<close> in order, the module
  state afterwards, the calls made to esbuild, the execution context if one was created
  (in its final state), and whether the returned promise has resolved. Every \<^verbatim>\<open>await\<close> of
  the function that can reject stands inside a \<^verbatim>\<open>try\<close>, whose \<^verbatim>\<open>catch\<close> is the \<open>Inl\<close>
  branch here, so the promise never rejects.
\<close>

record execution =
  outputs :: "OutputItem list"
  state :: proc
  calls :: "call list"
  exec_context :: "invocation option"
  settled :: bool

definition isJsx :: "string \<Rightarrow> bool" where
  "isJsx type = (type = ''tsx'' \<or> type = ''jsx'')"

definition loader :: "string \<Rightarrow> string" where
  "loader type = (if isJsx type then ''tsx'' else if type = ''typescript'' then ''ts'' else ''js'')"

definition executeCode :: "env \<Rightarrow> proc \<Rightarrow> string \<Rightarrow> string \<Rightarrow> execution" where
  "executeCode e p code type =
     (if trim code = [] then
        \<lparr>outputs = [], state = p, calls = [], exec_context = None, settled = True\<rparr>
      else if type = ''markdown'' then
        \<lparr>outputs = [createOutput ''react'' (createHtmlPreview (markdownToHtml code))],
         state = p, calls = [], exec_context = None, settled = True\<rparr>
      else
        case initEsbuild (initialize_outcome e) p of
          (Inl error, p1, cs) \<Rightarrow>
            \<lparr>outputs = [createOutput ''error''
                 (''Failed to initialize transpiler: '' @ message_of error)],
             state = p1, calls = cs, exec_context = None, settled = True\<rparr>
        | (Inr u, p1, cs) \<Rightarrow>
            let codeWithImports = transformImports code;
                cs2 = cs @ [Transform codeWithImports (loader type)]
            in case transform e codeWithImports (loader type) of
                 Inl error \<Rightarrow>
                   \<lparr>outputs = (case error of
                                  JsError msg \<Rightarrow> [createOutput ''error'' (''Transpilation error: '' @ msg)]
                                | NonError v \<Rightarrow> []),
                    state = p1, calls = cs2, exec_context = None, settled = True\<rparr>
               | Inr transpiledCode \<Rightarrow>
                   let hasReactComponent =
                         (isJsx type \<and>
                          (includes_str code ''<'' \<or> includes_str code ''export default'' \<or>
                           includes_str code ''export function''))
                   in if hasReactComponent then
                        \<lparr>outputs = [executeReactCode (stringify e) transpiledCode],
                         state = p1, calls = cs2, exec_context = None, settled = True\<rparr>
                      else
                        let (iv, p2) = executePlainCode e p1 transpiledCode
                        in \<lparr>outputs = emitted iv, state = p2, calls = cs2,
                            exec_context = Some iv, settled = resolved iv\<rparr>)"

text \<open>
  A process that runs its invocations one after the other, each to its end and in its own
  surroundings. Invocations that overlap at \<^verbatim>\<open>await initEsbuild()\<close> are treated
  separately, through \<open>initEsbuild_enter\<close> and \<open>initEsbuild_settle\<close>.
\<close>

fun run_process :: "proc \<Rightarrow> (env \<times> string \<times> string) list \<Rightarrow> execution list" where
  "run_process p [] = []"
| "run_process p ((e, code, type) # rest) =
     (let x = executeCode e p code type in x # run_process (state x) rest)"

definition initial_proc :: proc where
  "initial_proc = \<lparr>esbuildInitialized = False, esbuildInitError = None, executionCounter = 0\<rparr>"

text \<open>Reading a decimal rendering back, to tell renderings of different counts apart.\<close>

definition read_nat :: "string \<Rightarrow> nat" where
  "read_nat s = foldl (\<lambda>a c. 10 * a + (of_char c - 48)) 0 s"

text \<open>The correlation identifiers of the execution contexts that a run of invocations created.\<close>

definition context_ids :: "execution list \<Rightarrow> string list" where
  "context_ids xs =
     concat (map (\<lambda>x. case exec_context x of None \<Rightarrow> [] | Some iv \<Rightarrow> [inv_execId iv]) xs)"

text \<open>Surroundings for worked examples: esbuild initialises and returns its input unchanged.\<close>

definition demo_env :: "event list \<Rightarrow> env" where
  "demo_env evs =
     \<lparr>initialize_outcome = None, transform = (\<lambda>code ld. Inr code), date_now = 7,
      blob_id = ''b1'', stringify = (\<lambda>s. dq @ s @ dq), events = evs\<rparr>"

text \<open>
  Two invocations overlap: both pass the tests of \<^verbatim>\<open>initEsbuild\<close> on the initial state and
  call \<^verbatim>\<open>esbuild.initialize\<close>. esbuild answers the second call at once with the error of
  a repeated \<^verbatim>\<open>initialize\<close>; the first call rejects later. \<open>raced_proc\<close> is the module
  state after both have settled, in that order.
\<close>

definition raced_proc :: proc where
  "raced_proc =
     snd (initEsbuild_settle (Some (JsError ''no wasm''))
       (snd (initEsbuild_settle (Some (JsError initialize_twice)) initial_proc)))"

text \<open>Surroundings in which \<^verbatim>\<open>esbuild.transform\<close> rejects for want of an initialised service.\<close>

definition uninitialised_env :: env where
  "uninitialised_env =
     (demo_env [])\<lparr>transform := (\<lambda>code ld. Inl (JsError ''The service is not running''))\<rparr>"

text \<open>
  What an invocation does in a process whose initialisation error \<open>msg\<close> is cached: blank
  input emits nothing, \<^verbatim>\<open>markdown\<close> is rendered, every other input gets the cached error;
  the state stays as it is, esbuild is not called and no execution context is created.
\<close>

definition cached_failure :: "proc \<Rightarrow> string \<Rightarrow> env \<times> string \<times> string \<Rightarrow> execution" where
  "cached_failure p msg request =
     (case request of (e, code, type) \<Rightarrow>
        \<lparr>outputs =
           (if trim code = [] then []
            else if type = ''markdown'' then [createOutput ''react'' (createHtmlPreview (markdownToHtml code))]
            else [\<lparr>otype = ''error'', content = ''Failed to initialize transpiler: '' @ msg\<rparr>]),
         state = p, calls = [], exec_context = None, settled = True\<rparr>)"

text \<open>The escape of one character, as the specification words it.\<close>

definition escape_char :: "char \<Rightarrow> string" where
  "escape_char c =
     (if c = CHR ''&'' then ''&amp;''
      else if c = CHR ''<'' then ''&lt;''
      else if c = CHR ''>'' then ''&gt;''
      else [c])"

section \<open>Import statements\<close>


text \<open>
  An import statement in its plain form: the keyword, the bindings, \<^verbatim>\<open>from\<close> and the
  specifier in single quotes, with single spaces between.
\<close>

definition import_statement :: "string \<Rightarrow> string \<Rightarrow> string" where
  "import_statement b spec = ''import '' @ b @ '' from '' @ sq @ spec @ sq"






section \<open>Properties of the plain-value invocation\<close>

lemma cleanup_resolved [simp]: "resolved (cleanup iv)"
  by (simp add: cleanup_def Let_def split: option.splits)

lemma cleanup_idem: "resolved iv \<Longrightarrow> cleanup iv = iv"
  by (simp add: cleanup_def)

lemma inv_ok_start: "inv_ok (start_invocation eid b d)"
  by (simp add: inv_ok_def start_invocation_def createObjectURL_def)

lemma inv_ok_cleanup_clear:
  "inv_ok iv \<Longrightarrow> inv_ok (cleanup (clearTimeout iv))"
  by (auto simp: inv_ok_def cleanup_def clearTimeout_def Let_def)

lemma inv_ok_onOutput:
  "inv_ok iv \<Longrightarrow> inv_ok (onOutput item iv)"
  by (auto simp: inv_ok_def onOutput_def)

lemma inv_ok_handleMessage:
  "inv_ok iv \<Longrightarrow> inv_ok (handleMessage m iv)"
  by (auto simp: handleMessage_def inv_ok_onOutput inv_ok_cleanup_clear
      split: option.splits payload.splits)

lemma inv_ok_onTimeout:
  "inv_ok iv \<Longrightarrow> \<not> resolved iv \<Longrightarrow> inv_ok (onTimeout (iv\<lparr>timer_pending := False\<rparr>))"
  by (auto simp: inv_ok_def onTimeout_def cleanup_def onOutput_def Let_def)

lemma deliver_resolved_id: "inv_ok iv \<Longrightarrow> resolved iv \<Longrightarrow> deliver e iv = iv"
  by (cases e) (simp_all add: deliver_def inv_ok_def)

lemma inv_ok_deliver: "inv_ok iv \<Longrightarrow> inv_ok (deliver e iv)"
proof (cases "resolved iv")
  case True
  assume "inv_ok iv"
  then show ?thesis using True by (simp add: deliver_resolved_id)
next
  case False
  assume ok: "inv_ok iv"
  then have live: "listening iv" "timer_pending iv" using False by (simp_all add: inv_ok_def)
  show ?thesis
  proof (cases e)
    case (Message m)
    then show ?thesis using ok by (simp add: deliver_def inv_ok_handleMessage)
  next
    case TimerFired
    then show ?thesis using ok False live by (simp add: deliver_def inv_ok_onTimeout)
  qed
qed

lemma inv_ok_run: "inv_ok iv \<Longrightarrow> inv_ok (run_events es iv)"
  by (induction es arbitrary: iv) (simp_all add: inv_ok_deliver)

lemma run_events_resolved_id: "inv_ok iv \<Longrightarrow> resolved iv \<Longrightarrow> run_events es iv = iv"
  by (induction es) (simp_all add: deliver_resolved_id)

lemma run_events_append: "run_events (xs @ ys) iv = run_events ys (run_events xs iv)"
  by (induction xs arbitrary: iv) simp_all

lemma handleMessage_resolved:
  "resolved (handleMessage m iv) = (resolved iv \<or> is_done_for (inv_execId iv) (Message m))"
  by (auto simp: handleMessage_def is_done_for_def onOutput_def split: option.splits payload.splits)

lemma handleMessage_execId [simp]: "inv_execId (handleMessage m iv) = inv_execId iv"
  by (auto simp: handleMessage_def onOutput_def cleanup_def clearTimeout_def Let_def
      split: option.splits payload.splits)

lemma deliver_execId [simp]: "inv_execId (deliver e iv) = inv_execId iv"
  by (cases e) (auto simp: deliver_def onTimeout_def onOutput_def cleanup_def Let_def
      split: option.splits)

lemma deliver_blobUrl [simp]: "blobUrl (deliver e iv) = blobUrl iv"
  by (cases e) (auto simp: deliver_def handleMessage_def onTimeout_def onOutput_def cleanup_def
      clearTimeout_def Let_def split: option.splits payload.splits)

lemma run_events_blobUrl [simp]: "blobUrl (run_events es iv) = blobUrl iv"
  by (induction es arbitrary: iv) simp_all

lemma run_events_execId [simp]: "inv_execId (run_events es iv) = inv_execId iv"
  by (induction es arbitrary: iv) simp_all

lemma deliver_resolved:
  "inv_ok iv \<Longrightarrow>
   resolved (deliver e iv) = (resolved iv \<or> e = TimerFired \<or> is_done_for (inv_execId iv) e)"
proof (cases "resolved iv")
  case True
  assume "inv_ok iv"
  then show ?thesis using True by (simp add: deliver_resolved_id)
next
  case False
  assume ok: "inv_ok iv"
  then have live: "listening iv" "timer_pending iv" using False by (simp_all add: inv_ok_def)
  show ?thesis
  proof (cases e)
    case (Message m)
    then show ?thesis using live by (simp add: deliver_def handleMessage_resolved)
  next
    case TimerFired
    then show ?thesis using live by (simp add: deliver_def onTimeout_def)
  qed
qed

lemma run_events_resolved:
  "inv_ok iv \<Longrightarrow>
   resolved (run_events es iv) =
     (resolved iv \<or> (\<exists>e \<in> set es. e = TimerFired \<or> is_done_for (inv_execId iv) e))"
proof (induction es arbitrary: iv)
  case Nil
  then show ?case by simp
next
  case (Cons e es)
  have "inv_ok (deliver e iv)" using Cons.prems by (rule inv_ok_deliver)
  from Cons.IH [OF this] show ?case
    using Cons.prems by (auto simp: deliver_resolved)
qed

text \<open>
  C1. On every sequence of events delivered to a plain-value invocation, each cleanup
  action (removing the message listener, removing the iframe from the document, revoking
  the blob URL, resolving the promise) has been performed exactly once if an exit event
  (a \<^verbatim>\<open>done\<close> message for this invocation, or the timeout) occurs in the sequence, whatever
  else precedes or follows it, and not at all otherwise; an exit event always resolves the
  invocation.
\<close>

theorem cleanup_exactly_once:
  "(let iv = run_events es (start_invocation eid b d);
        exited = (\<exists>e \<in> set es. e = TimerFired \<or> is_done_for eid e);
        n = (if exited then 1 else 0)
    in resolved iv = exited \<and>
       listener_removals iv = n \<and>
       iframe_removals iv = n \<and>
       length (revoked iv) = n \<and>
       set (revoked iv) \<subseteq> {createObjectURL b} \<and>
       resolve_calls iv = n \<and>
       listening iv = (\<not> exited) \<and>
       iframe_attached iv = (\<not> exited))"
proof -
  let ?s = "start_invocation eid b d"
  have ok: "inv_ok (run_events es ?s)" by (rule inv_ok_run [OF inv_ok_start])
  have r: "resolved (run_events es ?s) = (\<exists>e \<in> set es. e = TimerFired \<or> is_done_for eid e)"
    using run_events_resolved [OF inv_ok_start, of es eid b]
    by (simp add: start_invocation_def)
  have u: "blobUrl (run_events es ?s) = Some (createObjectURL b)"
    by (simp add: start_invocation_def)
  show ?thesis
    using ok r u by (auto simp: inv_ok_def Let_def)
qed

text \<open>
  C2. If no \<^verbatim>\<open>done\<close> message of the invocation arrives before the timer fires, the
  firing appends exactly one item, of kind \<^verbatim>\<open>error\<close> and with the timeout text, to what
  was emitted before; the context is torn down (listener removed, iframe removed, blob URL
  revoked, promise resolved); and whatever is delivered afterwards, messages of the same
  context included, changes nothing.
\<close>

theorem timeout_single_error:
  assumes "\<forall>e \<in> set pre. e \<noteq> TimerFired \<and> \<not> is_done_for eid e"
  shows "(let before = run_events pre (start_invocation eid b d);
              after = run_events (pre @ TimerFired # post) (start_invocation eid b d)
          in emitted after = emitted before @ [\<lparr>otype = ''error'', content = ''Execution timed out (10s)''\<rparr>] \<and>
             resolved after \<and> \<not> listening after \<and> \<not> iframe_attached after \<and>
             revoked after = [createObjectURL b] \<and> resolve_calls after = 1 \<and>
             after = run_events (pre @ [TimerFired]) (start_invocation eid b d))"
proof -
  let ?s = "start_invocation eid b d"
  let ?b = "run_events pre ?s"
  let ?t = "deliver TimerFired ?b"
  have ok: "inv_ok ?b" by (rule inv_ok_run [OF inv_ok_start])
  have "resolved ?b = (\<exists>e \<in> set pre. e = TimerFired \<or> is_done_for eid e)"
    using run_events_resolved [OF inv_ok_start, of pre eid b] by (simp add: start_invocation_def)
  then have unres: "\<not> resolved ?b" using assms by auto
  then have live: "timer_pending ?b" "listening ?b" "iframe_attached ?b" "revoked ?b = []"
    "resolve_calls ?b = 0"
    using ok by (auto simp: inv_ok_def)
  have u: "blobUrl ?b = Some (createObjectURL b)" by (simp add: start_invocation_def)
  have t: "?t = onTimeout (?b\<lparr>timer_pending := False\<rparr>)"
    using live by (simp add: deliver_def)
  have okt: "inv_ok ?t" by (rule inv_ok_deliver [OF ok])
  have rt: "resolved ?t" by (simp add: t onTimeout_def)
  have em: "emitted ?t = emitted ?b @ [\<lparr>otype = ''error'', content = ''Execution timed out (10s)''\<rparr>]"
    using unres by (simp add: t onTimeout_def cleanup_def onOutput_def createOutput_def
        timeout_message_def Let_def split: option.splits)
  have rv: "revoked ?t = [createObjectURL b]"
    using unres live u by (simp add: t onTimeout_def cleanup_def onOutput_def createObjectURL_def Let_def)
  have rc: "resolve_calls ?t = 1"
    using okt rt by (simp add: inv_ok_def)
  have dead: "\<not> listening ?t" "\<not> iframe_attached ?t"
    using okt rt by (simp_all add: inv_ok_def)
  have post: "run_events (pre @ TimerFired # post) ?s = ?t"
    by (simp add: run_events_append run_events_resolved_id [OF okt rt])
  have one: "run_events (pre @ [TimerFired]) ?s = ?t"
    by (simp add: run_events_append)
  show ?thesis
    unfolding Let_def post one using em rt dead rv rc by simp
qed

theorem timeout_single_error_witness:
  "emitted (run_events
      ([Message (Some \<lparr>execId = ''exec_5_1'', body = Console ''log'' [JString ''hi'']\<rparr>)] @
       TimerFired #
       [Message (Some \<lparr>execId = ''exec_5_1'', body = Console ''log'' [JString ''late'']\<rparr>)])
      (start_invocation ''exec_5_1'' ''b1'' ''<html>'')) =
   [\<lparr>otype = ''log'', content = ''hi''\<rparr>,
    \<lparr>otype = ''error'', content = ''Execution timed out (10s)''\<rparr>]"
proof -
  let ?pre = "[Message (Some \<lparr>execId = ''exec_5_1'', body = Console ''log'' [JString ''hi'']\<rparr>)]"
  have h: "\<forall>e \<in> set ?pre. e \<noteq> TimerFired \<and> \<not> is_done_for ''exec_5_1'' e"
    by (simp add: is_done_for_def)
  have before: "emitted (run_events ?pre (start_invocation ''exec_5_1'' ''b1'' ''<html>'')) =
      [\<lparr>otype = ''log'', content = ''hi''\<rparr>]"
    by (simp add: start_invocation_def deliver_def handleMessage_def onOutput_def
        createOutput_def formatValue_def)
  have inst: "emitted (run_events
      (?pre @ TimerFired #
       [Message (Some \<lparr>execId = ''exec_5_1'', body = Console ''log'' [JString ''late'']\<rparr>)])
      (start_invocation ''exec_5_1'' ''b1'' ''<html>'')) =
    emitted (run_events ?pre (start_invocation ''exec_5_1'' ''b1'' ''<html>'')) @
      [\<lparr>otype = ''error'', content = ''Execution timed out (10s)''\<rparr>]"
    using timeout_single_error [OF h, of "''b1''" "''<html>''"
        "[Message (Some \<lparr>execId = ''exec_5_1'', body = Console ''log'' [JString ''late'']\<rparr>)]"]
    unfolding Let_def by blast
  show ?thesis
    unfolding inst before by simp
qed

lemma join_spec:
  "join '' '' xs = joined_by_spaces (map (\<lambda>x. case x of None \<Rightarrow> [] | Some s \<Rightarrow> s) xs)"
  by (induction "'' ''" xs rule: join.induct) simp_all

lemma formatArg_representation:
  "(case formatArg a of None \<Rightarrow> [] | Some s \<Rightarrow> s) = representation a"
proof (cases a)
  case (JObject structural generic)
  then show ?thesis by (cases structural) simp_all
qed simp_all

lemma formatValue_spec: "formatValue args = joined_by_spaces (map representation args)"
proof -
  have "map (\<lambda>x. case x of None \<Rightarrow> [] | Some s \<Rightarrow> s) (map formatArg args) =
      map representation args"
    by (induction args) (simp_all add: formatArg_representation)
  then show ?thesis by (simp only: formatValue_def join_spec)
qed

text \<open>
  C5. What \<^verbatim>\<open>handleMessage\<close> emits for each kind of protocol message addressed to the
  invocation: a console message yields one item whose kind is the method and whose content
  is the representations of the arguments, each computed on its own, with a single space
  between neighbours; an error message yields one \<^verbatim>\<open>error\<close> item with the message; a result
  message yields one \<^verbatim>\<open>result\<close> item if its value is defined and nothing if it is
  \<^verbatim>\<open>undefined\<close>; a \<^verbatim>\<open>done\<close> message yields no item.
\<close>

theorem message_classification:
  assumes "execId m = inv_execId iv"
  shows "(body m = Console method args \<longrightarrow>
            handleMessage (Some m) iv =
              iv\<lparr>emitted := emitted iv @
                [\<lparr>otype = method, content = joined_by_spaces (map representation args)\<rparr>]\<rparr>) \<and>
         (body m = ErrorMsg msg \<longrightarrow>
            handleMessage (Some m) iv =
              iv\<lparr>emitted := emitted iv @ [\<lparr>otype = ''error'', content = msg\<rparr>]\<rparr>) \<and>
         (body m = Result v \<and> v \<noteq> JUndefined \<longrightarrow>
            handleMessage (Some m) iv =
              iv\<lparr>emitted := emitted iv @ [\<lparr>otype = ''result'', content = representation v\<rparr>]\<rparr>) \<and>
         (body m = Result JUndefined \<longrightarrow> handleMessage (Some m) iv = iv) \<and>
         (body m = Done \<longrightarrow> emitted (handleMessage (Some m) iv) = emitted iv)"
  using assms
  by (auto simp: handleMessage_def onOutput_def createOutput_def formatValue_spec
      cleanup_def clearTimeout_def Let_def split: option.splits)

theorem message_classification_witness:
  "handleMessage (Some \<lparr>execId = ''exec_5_1'',
       body = Console ''warn''
         [JString ''a'', JNull, JUndefined, JOther ''42'',
          JObject (Text ''{}'') ''[object Object]'', JObject Throws ''[object Object]'']\<rparr>)
     (start_invocation ''exec_5_1'' ''b1'' ''<html>'') =
   (start_invocation ''exec_5_1'' ''b1'' ''<html>'')
     \<lparr>emitted := [\<lparr>otype = ''warn'', content = ''a null undefined 42 {} [object Object]''\<rparr>]\<rparr>"
  using message_classification [of
      "\<lparr>execId = ''exec_5_1'',
        body = Console ''warn''
          [JString ''a'', JNull, JUndefined, JOther ''42'',
           JObject (Text ''{}'') ''[object Object]'', JObject Throws ''[object Object]'']\<rparr>"
      "start_invocation ''exec_5_1'' ''b1'' ''<html>''" "''warn''"
      "[JString ''a'', JNull, JUndefined, JOther ''42'',
        JObject (Text ''{}'') ''[object Object]'', JObject Throws ''[object Object]'']"]
  by (simp add: start_invocation_def)

section \<open>Blank input\<close>

lemma all_dropWhile: "(\<forall>x \<in> set (dropWhile P s). P x) \<longleftrightarrow> (\<forall>x \<in> set s. P x)"
  by (induction s) auto

lemma trim_Nil_iff: "trim s = [] \<longleftrightarrow> (\<forall>c \<in> set s. is_space c)"
  by (simp add: trim_def dropWhile_eq_Nil_conv all_dropWhile)

text \<open>
  C10. If the source text is empty or consists of white space only, \<^verbatim>\<open>executeCode\<close>
  resolves at once and emits nothing, whatever the declared variant (\<^verbatim>\<open>markdown\<close>
  included): no item, no call to the transpiler, no execution context, no change of state.
\<close>

theorem blank_source_no_output:
  assumes "\<forall>c \<in> set code. is_space c"
  shows "executeCode e p code type =
           \<lparr>outputs = [], state = p, calls = [], exec_context = None, settled = True\<rparr>"
  using assms by (simp add: executeCode_def trim_Nil_iff)

theorem blank_source_no_output_witness:
  "executeCode (demo_env []) initial_proc ('' '' @ nl @ [CHR 0x09]) ''markdown'' =
     \<lparr>outputs = [], state = initial_proc, calls = [], exec_context = None, settled = True\<rparr>"
  by (rule blank_source_no_output) (simp add: nl_def is_space_def)

section \<open>Correlation identifiers\<close>

lemma of_char_digit: "d < 10 \<Longrightarrow> of_char (digit d) = 48 + d"
  by (simp add: digit_def)

lemma digit_not_underscore: "d < 10 \<Longrightarrow> digit d \<noteq> CHR ''_''"
proof
  assume "d < 10" and "digit d = CHR ''_''"
  then have "(of_char (digit d) :: nat) = of_char (CHR ''_'')" by simp
  with \<open>d < 10\<close> show False by (simp add: of_char_digit)
qed

lemma show_nat_no_underscore: "CHR ''_'' \<notin> set (show_nat n)"
proof (induction n rule: show_nat.induct)
  case (1 n)
  show ?case
  proof (cases "n < 10")
    case True
    then show ?thesis using digit_not_underscore [of n] by (subst show_nat.simps) auto
  next
    case False
    then show ?thesis
      using 1 digit_not_underscore [of "n mod 10"] by (subst show_nat.simps) auto
  qed
qed

lemma read_show: "read_nat (show_nat n) = n"
proof (induction n rule: show_nat.induct)
  case (1 n)
  show ?case
  proof (cases "n < 10")
    case True
    then show ?thesis by (subst show_nat.simps) (simp add: read_nat_def of_char_digit)
  next
    case False
    then have "read_nat (show_nat (n div 10)) = n div 10" using 1 by simp
    then show ?thesis
      using False by (subst show_nat.simps) (simp add: read_nat_def of_char_digit)
  qed
qed

lemma show_nat_inj: "show_nat a = show_nat b \<Longrightarrow> a = b"
  by (metis read_show)

lemma exec_id_inj:
  assumes "''exec_'' @ show_nat t1 @ ''_'' @ show_nat c1 = ''exec_'' @ show_nat t2 @ ''_'' @ show_nat c2"
  shows "c1 = c2"
proof -
  from assms have "show_nat t1 @ CHR ''_'' # show_nat c1 = show_nat t2 @ CHR ''_'' # show_nat c2"
    by simp
  then have "show_nat c1 = show_nat c2"
    using show_nat_no_underscore by (simp add: append_Cons_eq_iff)
  then show ?thesis by (rule show_nat_inj)
qed


lemma initEsbuild_counter [simp]:
  "executionCounter (fst (snd (initEsbuild outcome p))) = executionCounter p"
  by (simp add: initEsbuild_def initEsbuild_enter_def initEsbuild_settle_def split: option.splits)

lemma executePlainCode_id:
  "inv_execId (fst (executePlainCode e p code)) =
     ''exec_'' @ show_nat (date_now e) @ ''_'' @ show_nat (Suc (executionCounter p)) \<and>
   executionCounter (snd (executePlainCode e p code)) = Suc (executionCounter p)"
  by (simp add: executePlainCode_def getExecutionId_def Let_def start_invocation_def)

lemma executeCode_counter:
  "(case exec_context (executeCode e p code type) of
      None \<Rightarrow> executionCounter (state (executeCode e p code type)) = executionCounter p
    | Some iv \<Rightarrow>
        inv_execId iv =
          ''exec_'' @ show_nat (date_now e) @ ''_'' @ show_nat (Suc (executionCounter p)) \<and>
        executionCounter (state (executeCode e p code type)) = Suc (executionCounter p))"
proof -
  obtain r p1 cs where i: "initEsbuild (initialize_outcome e) p = (r, p1, cs)"
    by (cases "initEsbuild (initialize_outcome e) p") auto
  have c1: "executionCounter p1 = executionCounter p"
    using initEsbuild_counter [of "initialize_outcome e" p] by (simp add: i)
  have c2: "inv_execId (fst (executePlainCode e p1 code')) =
      ''exec_'' @ show_nat (date_now e) @ ''_'' @ show_nat (Suc (executionCounter p)) \<and>
      executionCounter (snd (executePlainCode e p1 code')) = Suc (executionCounter p)" for code'
    using executePlainCode_id [of e p1 code'] by (simp add: c1)
  show ?thesis
    using c1 c2 by (auto simp: executeCode_def i Let_def case_prod_beta split: sum.splits)
qed

lemma context_ids_above:
  "i \<in> set (context_ids (run_process p invs)) \<Longrightarrow>
   \<exists>t c. i = ''exec_'' @ show_nat t @ ''_'' @ show_nat c \<and> executionCounter p < c"
proof (induction invs arbitrary: p)
  case Nil
  then show ?case by (simp add: context_ids_def)
next
  case (Cons a invs)
  obtain e code type where a: "a = (e, code, type)" by (cases a) auto
  let ?x = "executeCode e p code type"
  have cnt: "executionCounter p \<le> executionCounter (state ?x)"
    using executeCode_counter [of e p code type] by (auto split: option.splits)
  from Cons.prems have "i \<in> set (context_ids [?x]) \<or> i \<in> set (context_ids (run_process (state ?x) invs))"
    by (auto simp: a context_ids_def Let_def)
  then show ?case
  proof
    assume "i \<in> set (context_ids [?x])"
    then show ?thesis
      using executeCode_counter [of e p code type]
      by (auto simp: context_ids_def split: option.splits)
  next
    assume "i \<in> set (context_ids (run_process (state ?x) invs))"
    from Cons.IH [OF this] obtain t c where
      "i = ''exec_'' @ show_nat t @ ''_'' @ show_nat c" "executionCounter (state ?x) < c"
      by blast
    with cnt have "i = ''exec_'' @ show_nat t @ ''_'' @ show_nat c \<and> executionCounter p < c"
      by simp
    then show ?thesis by blast
  qed
qed

lemma context_ids_distinct: "distinct (context_ids (run_process p invs))"
proof (induction invs arbitrary: p)
  case Nil
  then show ?case by (simp add: context_ids_def)
next
  case (Cons a invs)
  obtain e code type where a: "a = (e, code, type)" by (cases a) auto
  let ?x = "executeCode e p code type"
  have split: "context_ids (run_process p (a # invs)) =
      context_ids [?x] @ context_ids (run_process (state ?x) invs)"
    by (simp add: a context_ids_def Let_def)
  have tail: "distinct (context_ids (run_process (state ?x) invs))" by (rule Cons.IH)
  show ?case
  proof (cases "exec_context ?x")
    case None
    then have "context_ids [?x] = []" by (simp add: context_ids_def)
    then show ?thesis using tail unfolding split by simp
  next
    case (Some iv)
    with executeCode_counter [of e p code type]
    have id: "inv_execId iv =
        ''exec_'' @ show_nat (date_now e) @ ''_'' @ show_nat (Suc (executionCounter p))"
      and cnt: "executionCounter (state ?x) = Suc (executionCounter p)"
      by simp_all
    have "inv_execId iv \<notin> set (context_ids (run_process (state ?x) invs))"
    proof
      assume "inv_execId iv \<in> set (context_ids (run_process (state ?x) invs))"
      from context_ids_above [OF this] obtain t c where
        eq: "inv_execId iv = ''exec_'' @ show_nat t @ ''_'' @ show_nat c"
        and gt: "executionCounter (state ?x) < c" by blast
      from eq id have "Suc (executionCounter p) = c" by (metis exec_id_inj)
      with gt cnt show False by simp
    qed
    moreover have "context_ids [?x] = [inv_execId iv]" using Some by (simp add: context_ids_def)
    ultimately show ?thesis using tail unfolding split by simp
  qed
qed

text \<open>
  C3. A message whose \<^verbatim>\<open>execId\<close> differs from the invocation's own leaves the invocation
  exactly as it was (no item, no change of state); each call of \<^verbatim>\<open>getExecutionId\<close>
  advances the counter by one; and the identifiers of the execution contexts created by any
  run of invocations of one process are pairwise distinct.
\<close>

theorem correlation_ids:
  "(execId msg \<noteq> inv_execId iv \<longrightarrow>
      handleMessage (Some msg) iv = iv \<and> deliver (Message (Some msg)) iv = iv) \<and>
   executionCounter (snd (getExecutionId now p)) = Suc (executionCounter p) \<and>
   distinct (context_ids (run_process p invs))"
  by (simp add: handleMessage_def deliver_def getExecutionId_def Let_def context_ids_distinct)


lemma demo_ids:
  "context_ids (run_process initial_proc
      [(demo_env [TimerFired], ''1 + 1'', ''javascript''),
       (demo_env [], '' '', ''javascript''),
       (demo_env [Message (Some \<lparr>execId = ''exec_7_2'', body = Done\<rparr>)], ''2'', ''typescript'')]) =
   [''exec_7_1'', ''exec_7_2'']"
  by code_simp

theorem correlation_ids_witness:
  "handleMessage (Some \<lparr>execId = ''exec_7_2'', body = Done\<rparr>) (start_invocation ''exec_7_1'' ''b1'' ''<html>'') =
     start_invocation ''exec_7_1'' ''b1'' ''<html>'' \<and>
   distinct (context_ids (run_process initial_proc
      [(demo_env [TimerFired], ''1 + 1'', ''javascript''),
       (demo_env [Message (Some \<lparr>execId = ''exec_7_2'', body = Done\<rparr>)], ''2'', ''typescript'')]))"
proof -
  have h: "execId \<lparr>execId = ''exec_7_2'', body = Done\<rparr> \<noteq> inv_execId (start_invocation ''exec_7_1'' ''b1'' ''<html>'')"
    by (simp add: start_invocation_def)
  show ?thesis
    using h correlation_ids [of "\<lparr>execId = ''exec_7_2'', body = Done\<rparr>"
        "start_invocation ''exec_7_1'' ''b1'' ''<html>''" 0 initial_proc
        "[(demo_env [TimerFired], ''1 + 1'', ''javascript''),
          (demo_env [Message (Some \<lparr>execId = ''exec_7_2'', body = Done\<rparr>)], ''2'', ''typescript'')]"]
    by blast
qed

section \<open>Transpilation failure\<close>

text \<open>
  C4. An input whose transpilation fails is one that reaches \<^verbatim>\<open>esbuild.transform\<close> (it
  is not blank, its variant is not \<^verbatim>\<open>markdown\<close>, the transpiler is initialised) and for
  which the call rejects; esbuild rejects with an \<^verbatim>\<open>Error\<close> that carries the failure
  message. For every such input \<^verbatim>\<open>executeCode\<close> emits exactly one item, of kind
  \<^verbatim>\<open>error\<close>, whose content is \<^verbatim>\<open>Transpilation error: \<close> followed by that message, and
  nothing else; no execution context is created (the code does not run, and no identifier
  is drawn); and the promise resolves.
\<close>

theorem transpile_failure:
  assumes "trim code \<noteq> []" and "type \<noteq> ''markdown''"
    and "fst (initEsbuild (initialize_outcome e) p) = Inr ()"
    and "transform e (transformImports code) (loader type) = Inl (JsError msg)"
  shows "outputs (executeCode e p code type) =
           [\<lparr>otype = ''error'', content = ''Transpilation error: '' @ msg\<rparr>] \<and>
         exec_context (executeCode e p code type) = None \<and>
         settled (executeCode e p code type) \<and>
         executionCounter (state (executeCode e p code type)) = executionCounter p"
proof -
  obtain p1 cs where i: "initEsbuild (initialize_outcome e) p = (Inr (), p1, cs)"
    using assms(3) by (cases "initEsbuild (initialize_outcome e) p") auto
  have c1: "executionCounter p1 = executionCounter p"
    using initEsbuild_counter [of "initialize_outcome e" p] by (simp add: i)
  show ?thesis
    using assms(1,2,4) c1
    by (simp add: executeCode_def i Let_def createOutput_def)
qed

theorem transpile_failure_witness:
  "outputs (executeCode ((demo_env [])\<lparr>transform := (\<lambda>code ld. Inl (JsError ''Unexpected end of file''))\<rparr>)
      initial_proc ''x ='' ''javascript'') =
     [\<lparr>otype = ''error'', content = ''Transpilation error: Unexpected end of file''\<rparr>]"
proof -
  let ?e = "(demo_env [])\<lparr>transform := (\<lambda>code ld. Inl (JsError ''Unexpected end of file''))\<rparr>"
  have 1: "trim ''x ='' \<noteq> []" by code_simp
  have 2: "''javascript'' \<noteq> ''markdown''" by simp
  have 3: "fst (initEsbuild (initialize_outcome ?e) initial_proc) = Inr ()" by code_simp
  have 4: "transform ?e (transformImports ''x ='') (loader ''javascript'') = Inl (JsError ''Unexpected end of file'')"
    by simp
  show ?thesis
    using transpile_failure [OF 1 2 3 4] by simp
qed

section \<open>Initialisation failure\<close>

lemma executeCode_cached:
  assumes "\<not> esbuildInitialized p" and "esbuildInitError p = Some msg"
  shows "executeCode e p code type = cached_failure p msg (e, code, type)"
  using assms
  by (simp add: executeCode_def cached_failure_def initEsbuild_def initEsbuild_enter_def
      message_of_def createOutput_def)

lemma run_process_cached:
  assumes "\<not> esbuildInitialized p" and "esbuildInitError p = Some msg"
  shows "run_process p invs = map (cached_failure p msg) invs"
proof (induction invs)
  case Nil
  show ?case by simp
next
  case (Cons a invs)
  obtain e code type where a: "a = (e, code, type)" by (cases a) auto
  have "state (cached_failure p msg (e, code, type)) = p" by (simp add: cached_failure_def)
  then show ?case
    using Cons.IH by (simp add: a Let_def executeCode_cached [OF assms])
qed

text \<open>
  Without overlap the failure is sticky: the invocation during which
  \<^verbatim>\<open>esbuild.initialize\<close> fails emits the initialisation error and caches it, and in every
  later run of invocations the state stays the same, esbuild is not called again, and each
  invocation that gets as far as \<^verbatim>\<open>initEsbuild\<close> emits that same error.
\<close>

lemma init_failure_sticky_sequential:
  assumes "\<not> esbuildInitialized p" and "esbuildInitError p = None"
    and "initialize_outcome e = Some error" and "\<not> already_initialized error"
    and "trim code \<noteq> []" and "type \<noteq> ''markdown''"
  shows "executeCode e p code type =
           \<lparr>outputs = [\<lparr>otype = ''error'',
                         content = ''Failed to initialize transpiler: '' @ message_of error\<rparr>],
            state = p\<lparr>esbuildInitError := Some (message_of error)\<rparr>,
            calls = [Initialize], exec_context = None, settled = True\<rparr> \<and>
         run_process (state (executeCode e p code type)) invs =
           map (cached_failure (p\<lparr>esbuildInitError := Some (message_of error)\<rparr>) (message_of error)) invs"
proof -
  have first: "executeCode e p code type =
      \<lparr>outputs = [\<lparr>otype = ''error'',
                    content = ''Failed to initialize transpiler: '' @ message_of error\<rparr>],
       state = p\<lparr>esbuildInitError := Some (message_of error)\<rparr>,
       calls = [Initialize], exec_context = None, settled = True\<rparr>"
    using assms
    by (simp add: executeCode_def initEsbuild_def initEsbuild_enter_def initEsbuild_settle_def
        createOutput_def message_of_def)
  have "run_process (p\<lparr>esbuildInitError := Some (message_of error)\<rparr>) invs =
      map (cached_failure (p\<lparr>esbuildInitError := Some (message_of error)\<rparr>) (message_of error)) invs"
    using assms(1) by (intro run_process_cached) simp_all
  then show ?thesis by (simp add: first)
qed

text \<open>
  C9. The claim asks that, once initialisation has failed, every later invocation surface
  the cached error. With overlapping invocations the executor does not: the invocation
  whose \<^verbatim>\<open>initialize\<close> call is answered with the error of a repeated call sets
  \<^verbatim>\<open>esbuildInitialized\<close>, although the first call is still pending; when that one fails, its
  error is cached beside the flag. From then on \<^verbatim>\<open>initEsbuild\<close> returns at its first test,
  so a later invocation goes on to \<^verbatim>\<open>esbuild.transform\<close> and reports whatever that
  yields, not the cached initialisation error.
\<close>

theorem init_race_hides_cached_error:
  "initEsbuild_enter initial_proc = CallsInitialize \<and>
   raced_proc = \<lparr>esbuildInitialized = True, esbuildInitError = Some ''no wasm'', executionCounter = 0\<rparr> \<and>
   initEsbuild_enter raced_proc = AlreadyInitialized \<and>
   executeCode uninitialised_env raced_proc ''1 + 1'' ''javascript'' =
     \<lparr>outputs = [\<lparr>otype = ''error'', content = ''Transpilation error: The service is not running''\<rparr>],
      state = raced_proc, calls = [Transform ''1 + 1'' ''js''], exec_context = None, settled = True\<rparr>"
  by code_simp

section \<open>The markup renderer escapes before it substitutes\<close>

lemma replace_all_Is:
  "replace_all [Cls (Is c)] (fixed_text r) prev s = concat (map (\<lambda>x. if x = c then r else [x]) s)"
proof (induction s arbitrary: prev)
  case Nil
  show ?case by (subst replace_all.simps) simp
next
  case (Cons x xs)
  show ?case
    by (subst replace_all.simps) (simp add: fixed_text_def Let_def Cons.IH)
qed

lemma replace_all_char:
  "replace_all (lit [c]) (fixed_text r) prev s = concat (map (\<lambda>x. if x = c then r else [x]) s)"
  by (simp add: lit_def replace_all_Is)

lemma escape_html_chars: "escape_html s = concat (map escape_char s)"
  unfolding escape_html_def replace_def replace_all_char
  by (induction s) (simp_all add: escape_char_def)

lemma escape_char_no_angle: "CHR ''<'' \<notin> set (escape_char c) \<and> CHR ''>'' \<notin> set (escape_char c)"
  by (simp add: escape_char_def)

lemma escape_html_no_angle: "CHR ''<'' \<notin> set (escape_html s) \<and> CHR ''>'' \<notin> set (escape_html s)"
  using escape_char_no_angle by (auto simp: escape_html_chars)

lemma title_bold: "markdownToHtml (''# Title'' @ nl @ ''**bold**'') = ''<p><h1>Title</h1><br><strong>bold</strong></p>''"
  by code_simp

lemma title_bold_trim: "trim (''# Title'' @ nl @ ''**bold**'') \<noteq> []"
  by code_simp

lemma sublist_preview: "sublist x h \<Longrightarrow> sublist x (createHtmlPreview h)"
proof -
  assume "sublist x h"
  moreover have "sublist h (createHtmlPreview h)"
    unfolding createHtmlPreview_def by (rule sublist_appendI)
  ultimately show ?thesis by (rule sublist_order.order.trans)
qed

lemma executeCode_markdown:
  "trim code \<noteq> [] \<Longrightarrow>
   executeCode e p code ''markdown'' =
     \<lparr>outputs = [\<lparr>otype = ''react'', content = createHtmlPreview (markdownToHtml code)\<rparr>],
      state = p, calls = [], exec_context = None, settled = True\<rparr>"
  by (simp add: executeCode_def createOutput_def)

text \<open>
  What the renderer does achieve: every \<^verbatim>\<open>&\<close>, \<^verbatim>\<open><\<close> and \<^verbatim>\<open>>\<close> of the input is
  replaced by \<^verbatim>\<open>&amp;\<close>, \<^verbatim>\<open>&lt;\<close> and \<^verbatim>\<open>&gt;\<close> before any structural substitution
  runs, so the text the substitutions work on holds no \<^verbatim>\<open><\<close> and no \<^verbatim>\<open>>\<close>; and for the
  input \<^verbatim>\<open># Title\<close>, line feed, \<^verbatim>\<open>**bold**\<close> of variant \<^verbatim>\<open>markdown\<close>, \<^verbatim>\<open>executeCode\<close>
  emits exactly one item, of kind \<^verbatim>\<open>react\<close>, whose content contains
  \<^verbatim>\<open><h1>Title</h1>\<close> and \<^verbatim>\<open><strong>bold</strong>\<close>, without a call to esbuild and without
  an execution context.
\<close>

lemma markup_escaped_then_rendered:
  "escape_html markdown = concat (map escape_char markdown) \<and>
   CHR ''<'' \<notin> set (escape_html markdown) \<and> CHR ''>'' \<notin> set (escape_html markdown) \<and>
   markdownToHtml markdown = ''<p>'' @ structural (escape_html markdown) @ ''</p>'' \<and>
   executeCode e p (''# Title'' @ nl @ ''**bold**'') ''markdown'' =
     \<lparr>outputs = [\<lparr>otype = ''react'',
                   content = createHtmlPreview ''<p><h1>Title</h1><br><strong>bold</strong></p>''\<rparr>],
      state = p, calls = [], exec_context = None, settled = True\<rparr> \<and>
   sublist ''<h1>Title</h1>'' (createHtmlPreview ''<p><h1>Title</h1><br><strong>bold</strong></p>'') \<and>
   sublist ''<strong>bold</strong>'' (createHtmlPreview ''<p><h1>Title</h1><br><strong>bold</strong></p>'')"
proof -
  have run: "executeCode e p (''# Title'' @ nl @ ''**bold**'') ''markdown'' =
     \<lparr>outputs = [\<lparr>otype = ''react'',
                   content = createHtmlPreview ''<p><h1>Title</h1><br><strong>bold</strong></p>''\<rparr>],
      state = p, calls = [], exec_context = None, settled = True\<rparr>"
    unfolding executeCode_markdown [OF title_bold_trim] title_bold ..
  have h1: "sublist ''<h1>Title</h1>'' ''<p><h1>Title</h1><br><strong>bold</strong></p>''"
    by code_simp
  have st: "sublist ''<strong>bold</strong>'' ''<p><h1>Title</h1><br><strong>bold</strong></p>''"
    by code_simp
  show ?thesis
    using run sublist_preview [OF h1] sublist_preview [OF st] escape_html_no_angle [of markdown]
    by (simp add: escape_html_chars [symmetric] markdownToHtml_def)
qed

text \<open>
  C8. The claim asks that user prose cannot inject active markup. The renderer escapes
  \<^verbatim>\<open>&\<close>, \<^verbatim>\<open><\<close> and \<^verbatim>\<open>>\<close> but not the double quote, and the link substitution copies the
  target of a link into the \<^verbatim>\<open>href\<close> attribute: prose closes the attribute and adds an
  event handler to the anchor that the renderer generates.
\<close>

theorem link_target_injects_attribute:
  "markdownToHtml (''[a]('' @ dq @ '' onmouseover='' @ dq @ ''x)'') =
     ''<p><a href='' @ dq @ dq @ '' onmouseover='' @ dq @ ''x'' @ dq @ ''>a</a></p>''"
  by code_simp

section \<open>The import rewriter on import statements\<close>





























text \<open>
  C6. The claim asks that exactly the statements with a bare package name be redirected
  to the module host, and that a specifier be left alone when it starts with a URL scheme.
  The callback tests \<^verbatim>\<open>pkg.startsWith('http')\<close> instead: the bare package name
  \<^verbatim>\<open>http-proxy\<close> is not redirected, and the specifier \<^verbatim>\<open>node:fs\<close>, which starts with a
  URL scheme, is.
\<close>

theorem http_prefix_decides_rewrite:
  "transformImports (import_statement ''a'' ''http-proxy'') = import_statement ''a'' ''http-proxy'' \<and>
   transformImports (import_statement ''fs'' ''node:fs'') = import_statement ''fs'' ''https://esm.sh/node:fs''"
  by code_simp





end
